theory Spec2Isabelle
  imports Complex_Main
begin

section \<open>The loss functions of libcf (src/model/loss.hpp)\<close>

text \<open>
  The header declares an enumeration \<open>LossType\<close>, an abstract class \<open>Loss\<close> with the
  virtual methods \<open>loss_type\<close>, \<open>evaluate\<close>, \<open>gradient\<close> and \<open>predict\<close>, six classes
  that override them, and the factory \<open>Loss::create\<close>.

  Numbers: a C++ \<open>double\<close> is modelled by a \<open>real\<close>, so \<open>+\<close>, \<open>-\<close>, \<open>*\<close>, \<open>/\<close> are exact
  and \<open>std::exp\<close>, \<open>std::log\<close> are \<open>exp\<close> and \<open>ln\<close>. Rounding, overflow, infinities and
  NaN are outside this model. The literal \<open>0.0001\<close> is the rational \<open>1/10000\<close>.
  Every method body is translated statement by statement, an early \<open>return\<close> being the
  \<open>then\<close> branch of an \<open>if\<close> whose \<open>else\<close> branch is the rest of the body.
\<close>

type_synonym double = real

subsection \<open>Library functions used by the header\<close>

text \<open>\<open>std::log1p(x)\<close> of \<open>cmath\<close>: the natural logarithm of \<open>1 + x\<close>.\<close>

definition log1p :: "double \<Rightarrow> double" where
  "log1p x = ln (1 + x)"

text \<open>\<open>std::max(a, b)\<close> of \<open>algorithm\<close>: \<open>(a < b) ? b : a\<close>.\<close>

definition std_max :: "double \<Rightarrow> double \<Rightarrow> double" where
  "std_max a b = (if a < b then b else a)"

subsection \<open>Fatal checks\<close>

datatype error = CheckFailed

text \<open>
  Modelled from the spec: the macro \<open>CHECK\<close> is used by \<open>LogisticLoss\<close> but is not defined
  in loss.hpp. The specification describes it as a fatal precondition failure: when the
  condition is false the computation halts and no number is returned; when it is true
  the statements after it run. The second argument is the rest of the method body.
\<close>

definition CHECK :: "bool \<Rightarrow> error + 'a \<Rightarrow> error + 'a" where
  "CHECK c rest = (if c then rest else Inl CheckFailed)"

subsection \<open>enum LossType\<close>

text \<open>
  An unscoped enumeration; its enumerators are numbered from \<open>SQUARE = 0\<close> in the order
  of declaration. A \<open>LossType\<close> object may hold an integer that is none of the six
  enumerators (the \<open>default\<close> label of \<open>Loss::create\<close> is there for this), so the type is
  modelled by the integers.
\<close>

type_synonym LossType = int

definition SQUARE :: LossType where "SQUARE = 0"
definition LOGISTIC :: LossType where "LOGISTIC = 1"
definition LOG :: LossType where "LOG = 2"
definition HINGE :: LossType where "HINGE = 3"
definition SQUARED_HINGE :: LossType where "SQUARED_HINGE = 4"
definition CROSS_ENTROPY :: LossType where "CROSS_ENTROPY = 5"

subsection \<open>class SquareLoss\<close>

definition SquareLoss_loss_type :: string where
  "SquareLoss_loss_type = ''Square''"

definition SquareLoss_evaluate :: "double \<Rightarrow> double \<Rightarrow> double" where
  "SquareLoss_evaluate pred truth = (let err = truth - pred in err * err)"

definition SquareLoss_gradient :: "double \<Rightarrow> double \<Rightarrow> double" where
  "SquareLoss_gradient pred truth = - 2 * (truth - pred)"

definition SquareLoss_predict :: "double \<Rightarrow> double" where
  "SquareLoss_predict x = x"

subsection \<open>class LogisticLoss\<close>

definition LogisticLoss_loss_type :: string where
  "LogisticLoss_loss_type = ''Logistic''"

definition LogisticLoss_evaluate :: "double \<Rightarrow> double \<Rightarrow> error + double" where
  "LogisticLoss_evaluate pred truth =
     CHECK (pred \<ge> 0 \<and> pred \<le> 1)
    (CHECK (truth = 1 \<or> truth = 0)
    (if truth = 0 then Inr (- ln (std_max 0.0001 (1 - pred)))
     else if truth = 1 then Inr (- ln (std_max 0.0001 pred))
     else Inr 0))"

definition LogisticLoss_gradient :: "double \<Rightarrow> double \<Rightarrow> error + double" where
  "LogisticLoss_gradient pred truth =
     CHECK (pred > 0 \<and> pred < 1)
    (CHECK (truth = 1 \<or> truth = 0)
    (Inr ((pred - truth) / (pred * (1 - pred)))))"

definition LogisticLoss_predict :: "double \<Rightarrow> double" where
  "LogisticLoss_predict x = x"

subsection \<open>class CrossEntropyLoss\<close>

definition CrossEntropyLoss_loss_type :: string where
  "CrossEntropyLoss_loss_type = ''CrossEntropy''"

definition CrossEntropyLoss_evaluate :: "double \<Rightarrow> double \<Rightarrow> double" where
  "CrossEntropyLoss_evaluate pred truth =
     (let ret = (1 - truth) * pred in
      if pred > 18 then ret + exp (- pred)
      else if pred < - 18 then ret - pred
      else ret + log1p (exp (- pred)))"

definition CrossEntropyLoss_gradient :: "double \<Rightarrow> double \<Rightarrow> double" where
  "CrossEntropyLoss_gradient pred truth =
     (if pred < - 18 then exp pred - truth
      else if pred > 18 then 1 - truth
      else 1 / (1 + exp (- pred)) - truth)"

definition CrossEntropyLoss_predict :: "double \<Rightarrow> double" where
  "CrossEntropyLoss_predict x = 1 / (1 + exp (- x))"

subsection \<open>class LogLoss\<close>

definition LogLoss_loss_type :: string where
  "LogLoss_loss_type = ''Log''"

definition LogLoss_evaluate :: "double \<Rightarrow> double \<Rightarrow> double" where
  "LogLoss_evaluate pred truth =
     (let z = pred * truth in
      if z > 18 then exp (- z)
      else if z < - 18 then - z
      else log1p (exp (- z)))"

definition LogLoss_gradient :: "double \<Rightarrow> double \<Rightarrow> double" where
  "LogLoss_gradient pred truth =
     (let z = pred * truth in
      if z > 18 then - truth * exp (- z)
      else if z < - 18 then - truth
      else - truth / (1 + exp z))"

definition LogLoss_predict :: "double \<Rightarrow> double" where
  "LogLoss_predict x = x"

subsection \<open>class HingeLoss\<close>

definition HingeLoss_loss_type :: string where
  "HingeLoss_loss_type = ''Hinge''"

definition HingeLoss_evaluate :: "double \<Rightarrow> double \<Rightarrow> double" where
  "HingeLoss_evaluate pred truth =
     (let z = pred * truth in
      if z > 1 then 0
      else 1 - z)"

definition HingeLoss_gradient :: "double \<Rightarrow> double \<Rightarrow> double" where
  "HingeLoss_gradient pred truth =
     (let z = pred * truth in
      if z > 1 then 0
      else - truth)"

definition HingeLoss_predict :: "double \<Rightarrow> double" where
  "HingeLoss_predict x = x"

subsection \<open>class SquaredHingeLoss\<close>

definition SquaredHingeLoss_loss_type :: string where
  "SquaredHingeLoss_loss_type = ''SquaredHinge''"

definition SquaredHingeLoss_evaluate :: "double \<Rightarrow> double \<Rightarrow> double" where
  "SquaredHingeLoss_evaluate pred truth =
     (let z = pred * truth in
      if z > 1 then 0
      else (let d = 1 - z in 0.5 * d * d))"

definition SquaredHingeLoss_gradient :: "double \<Rightarrow> double \<Rightarrow> double" where
  "SquaredHingeLoss_gradient pred truth =
     (let z = pred * truth in
      if z > 1 then 0
      else - truth * (1 - z))"

definition SquaredHingeLoss_predict :: "double \<Rightarrow> double" where
  "SquaredHingeLoss_predict x = x"

subsection \<open>class Loss: the objects and the virtual calls\<close>

text \<open>
  The classes have no data members, so an object is its dynamic type, and a call of
  \<open>loss_type\<close> through a shared pointer to \<open>Loss\<close> runs the override of that type.
\<close>

datatype Loss =
  SquareLoss | LogisticLoss | CrossEntropyLoss | LogLoss | HingeLoss | SquaredHingeLoss

fun loss_type :: "Loss \<Rightarrow> string" where
  "loss_type SquareLoss = SquareLoss_loss_type"
| "loss_type LogisticLoss = LogisticLoss_loss_type"
| "loss_type CrossEntropyLoss = CrossEntropyLoss_loss_type"
| "loss_type LogLoss = LogLoss_loss_type"
| "loss_type HingeLoss = HingeLoss_loss_type"
| "loss_type SquaredHingeLoss = SquaredHingeLoss_loss_type"

subsection \<open>Loss::create\<close>

text \<open>The \<open>switch\<close>, its labels in the order of the source, the \<open>default\<close> label last.\<close>

definition create :: "LossType \<Rightarrow> Loss" where
  "create lt =
     (if lt = SQUARE then SquareLoss
      else if lt = LOGISTIC then LogisticLoss
      else if lt = CROSS_ENTROPY then CrossEntropyLoss
      else if lt = LOG then LogLoss
      else if lt = HINGE then HingeLoss
      else if lt = SQUARED_HINGE then SquaredHingeLoss
      else SquareLoss)"

section \<open>Auxiliary facts\<close>

text \<open>Over the reals \<open>std::max\<close> is the maximum.\<close>

lemma std_max_eq_max: "std_max a b = max a b"
  by (simp add: std_max_def max_def)

text \<open>
  The model applies \<open>ln\<close> to positive numbers only and never divides by zero on a path
  that returns, so no result below depends on the value HOL gives to \<open>ln\<close> outside its
  domain or to a division by zero.
\<close>

lemma floor_positive: "0 < std_max 0.0001 x"
  by (simp add: std_max_def)

lemma log1p_exp: "0 < 1 + exp (x::real) \<and> log1p (exp x) = ln (1 + exp x)"
  by (simp add: log1p_def add_pos_pos)

lemma LogisticLoss_gradient_divisor:
  "LogisticLoss_gradient pred truth = Inr g \<Longrightarrow> pred * (1 - pred) \<noteq> 0"
  by (auto simp add: LogisticLoss_gradient_def CHECK_def split: if_splits)

lemma LogisticLoss_evaluate_truth1:
  "0 \<le> p \<Longrightarrow> p \<le> 1 \<Longrightarrow> LogisticLoss_evaluate p 1 = Inr (- ln (max 0.0001 p))"
  by (simp add: LogisticLoss_evaluate_def CHECK_def std_max_eq_max)

lemma LogisticLoss_evaluate_truth0:
  "0 \<le> p \<Longrightarrow> p \<le> 1 \<Longrightarrow> LogisticLoss_evaluate p 0 = Inr (- ln (max 0.0001 (1 - p)))"
  by (simp add: LogisticLoss_evaluate_def CHECK_def std_max_eq_max)

lemma neg_ln_floor_mono:
  fixes a b :: real
  assumes "a < b"
  shows "- ln (max 0.0001 b) \<le> - ln (max 0.0001 a)"
    and "- ln (max 0.0001 b) < - ln (max 0.0001 a) \<longleftrightarrow> 0.0001 < b"
proof -
  have pa: "0 < max 0.0001 a" and pb: "0 < max 0.0001 b"
    by (simp_all add: max_def)
  have "max 0.0001 a \<le> max 0.0001 b" using assms by (simp add: max_def)
  then show "- ln (max 0.0001 b) \<le> - ln (max 0.0001 a)"
    using pa pb by simp
  have "max 0.0001 a < max 0.0001 b \<longleftrightarrow> 0.0001 < b"
    using assms by (auto simp add: max_def)
  then show "- ln (max 0.0001 b) < - ln (max 0.0001 a) \<longleftrightarrow> 0.0001 < b"
    using pa pb by simp
qed

lemma SquaredHingeLoss_evaluate_max:
  "SquaredHingeLoss_evaluate pred truth = 0.5 * (max 0 (1 - pred * truth))\<^sup>2"
  by (simp add: SquaredHingeLoss_evaluate_def Let_def max_def power2_eq_square)

lemma SquaredHingeLoss_evaluate_continuous_on:
  "continuous_on UNIV (\<lambda>x. SquaredHingeLoss_evaluate (fst x) (snd x))"
  unfolding SquaredHingeLoss_evaluate_max
  by (intro continuous_intros)



section \<open>Square loss\<close>

text \<open>
  C6: for the Square variant, for all \<open>pred\<close> and \<open>truth\<close>, \<open>evaluate(pred, truth)\<close> is
  \<open>(truth - pred)\<^sup>2\<close> and \<open>gradient(pred, truth)\<close> is \<open>-2 * (truth - pred)\<close>; in particular
  \<open>evaluate(3, 5) = 4\<close> and \<open>gradient(3, 5) = -4\<close>.
\<close>

theorem SquareLoss_formulas:
  "SquareLoss_evaluate pred truth = (truth - pred)\<^sup>2
   \<and> SquareLoss_gradient pred truth = - 2 * (truth - pred)
   \<and> SquareLoss_evaluate 3 5 = 4
   \<and> SquareLoss_gradient 3 5 = - 4"
  by (simp add: SquareLoss_evaluate_def SquareLoss_gradient_def Let_def power2_eq_square)

theorem SquareLoss_formulas_witness:
  "SquareLoss_evaluate 1 (- 2) = 9 \<and> SquareLoss_gradient 1 (- 2) = 6"
  using SquareLoss_formulas [where pred = 1 and truth = "- 2"]
  by simp

section \<open>Logistic loss\<close>

text \<open>
  C3: for the Logistic variant, when \<open>pred\<close> is in the closed interval \<open>[0, 1]\<close>,
  \<open>evaluate(pred, 0)\<close> returns \<open>- ln (max (1e-4, 1 - pred))\<close> and \<open>evaluate(pred, 1)\<close> returns
  \<open>- ln (max (1e-4, pred))\<close>; when \<open>pred\<close> is in the open interval \<open>(0, 1)\<close> and \<open>truth\<close> is
  \<open>0\<close> or \<open>1\<close>, \<open>gradient(pred, truth)\<close> returns \<open>(pred - truth) / (pred * (1 - pred))\<close>.
\<close>

theorem LogisticLoss_formulas:
  "(p \<in> {0..1} \<longrightarrow>
      LogisticLoss_evaluate p 0 = Inr (- ln (max 0.0001 (1 - p)))
      \<and> LogisticLoss_evaluate p 1 = Inr (- ln (max 0.0001 p)))
   \<and> (q \<in> {0<..<1} \<and> t \<in> {0, 1} \<longrightarrow>
      LogisticLoss_gradient q t = Inr ((q - t) / (q * (1 - q))))"
  by (auto simp add: LogisticLoss_evaluate_def LogisticLoss_gradient_def CHECK_def std_max_eq_max)

theorem LogisticLoss_formulas_witness:
  "(1/4::real) \<in> {0..1}
   \<and> LogisticLoss_evaluate (1/4) 0 = Inr (- ln (3/4))
   \<and> LogisticLoss_evaluate (1/4) 1 = Inr (- ln (1/4))
   \<and> (1/4::real) \<in> {0<..<1} \<and> (1::real) \<in> {0, 1}
   \<and> LogisticLoss_gradient (1/4) 1 = Inr (- 4)"
  using LogisticLoss_formulas [where p = "1/4" and q = "1/4" and t = 1]
  by simp

text \<open>
  C4: for the Logistic variant, \<open>evaluate\<close> stops with a failed check exactly when
  \<open>pred\<close> is outside \<open>[0, 1]\<close> or \<open>truth\<close> is neither \<open>0\<close> nor \<open>1\<close>, and \<open>gradient\<close> stops
  with a failed check exactly when \<open>pred\<close> is outside the open interval \<open>(0, 1)\<close> or
  \<open>truth\<close> is neither \<open>0\<close> nor \<open>1\<close>; in particular both fail for \<open>truth = 0.5\<close> (whatever
  \<open>pred\<close> is) and for \<open>pred = 1.5\<close> (whatever \<open>truth\<close> is).
\<close>

theorem LogisticLoss_failure:
  "(isl (LogisticLoss_evaluate pred truth) \<longleftrightarrow> pred \<notin> {0..1} \<or> truth \<notin> {0, 1})
   \<and> (isl (LogisticLoss_gradient pred truth) \<longleftrightarrow> pred \<notin> {0<..<1} \<or> truth \<notin> {0, 1})
   \<and> LogisticLoss_evaluate p 0.5 = Inl CheckFailed
   \<and> LogisticLoss_gradient p 0.5 = Inl CheckFailed
   \<and> LogisticLoss_evaluate 1.5 t = Inl CheckFailed
   \<and> LogisticLoss_gradient 1.5 t = Inl CheckFailed"
  by (auto simp add: LogisticLoss_evaluate_def LogisticLoss_gradient_def CHECK_def)

theorem LogisticLoss_failure_witness:
  "isl (LogisticLoss_evaluate 2 1) \<and> \<not> isl (LogisticLoss_evaluate 1 1)
   \<and> isl (LogisticLoss_gradient 1 1) \<and> \<not> isl (LogisticLoss_gradient 0.5 1)
   \<and> LogisticLoss_evaluate 0.25 0.5 = Inl CheckFailed
   \<and> LogisticLoss_gradient 0.25 0.5 = Inl CheckFailed
   \<and> LogisticLoss_evaluate 1.5 1 = Inl CheckFailed
   \<and> LogisticLoss_gradient 1.5 1 = Inl CheckFailed"
  using LogisticLoss_failure [where pred = 2 and truth = 1 and p = "0.25" and t = 1]
    LogisticLoss_failure [where pred = 1 and truth = 1]
    LogisticLoss_failure [where pred = "0.5" and truth = 1]
  by simp

text \<open>
  C9, as amended: for \<open>0 < p1 < p2 < 1\<close> both calls of \<open>evaluate\<close> return; \<open>evaluate(., 1)\<close>
  is non-increasing, and \<open>evaluate(p1, 1) > evaluate(p2, 1)\<close> holds exactly when
  \<open>p2 > 1e-4\<close>; \<open>evaluate(., 0)\<close> is non-decreasing, and \<open>evaluate(p1, 0) < evaluate(p2, 0)\<close>
  holds exactly when \<open>p1 < 1 - 1e-4\<close>. Where the floor \<open>1e-4\<close> inside the logarithm is
  active the loss is constant.
\<close>

theorem LogisticLoss_evaluate_monotone:
  assumes "0 < p1" and "p1 < p2" and "p2 < 1"
  shows "\<exists>v1 v2 w1 w2.
           LogisticLoss_evaluate p1 1 = Inr v1 \<and> LogisticLoss_evaluate p2 1 = Inr v2
           \<and> v2 \<le> v1 \<and> (v2 < v1 \<longleftrightarrow> 0.0001 < p2)
           \<and> LogisticLoss_evaluate p1 0 = Inr w1 \<and> LogisticLoss_evaluate p2 0 = Inr w2
           \<and> w1 \<le> w2 \<and> (w1 < w2 \<longleftrightarrow> p1 < 0.9999)"
proof -
  have e1: "LogisticLoss_evaluate p1 1 = Inr (- ln (max 0.0001 p1))"
    and e2: "LogisticLoss_evaluate p2 1 = Inr (- ln (max 0.0001 p2))"
    and f1: "LogisticLoss_evaluate p1 0 = Inr (- ln (max 0.0001 (1 - p1)))"
    and f2: "LogisticLoss_evaluate p2 0 = Inr (- ln (max 0.0001 (1 - p2)))"
    using assms by (simp_all add: LogisticLoss_evaluate_truth1 LogisticLoss_evaluate_truth0)
  have d: "1 - p2 < 1 - p1" using assms by simp
  have s: "0.0001 < 1 - p1 \<longleftrightarrow> p1 < 0.9999" by auto
  show ?thesis
    unfolding e1 e2 f1 f2
    using neg_ln_floor_mono [OF assms(2)] neg_ln_floor_mono [OF d] s
    by simp
qed

theorem LogisticLoss_evaluate_monotone_witness:
  "(0::real) < 1/4 \<and> (1/4::real) < 1/2 \<and> (1/2::real) < 1
   \<and> LogisticLoss_evaluate (1/4) 1 = Inr (- ln (1/4))
   \<and> LogisticLoss_evaluate (1/2) 1 = Inr (- ln (1/2))
   \<and> - ln (1/2) < - ln (1/4::real)
   \<and> LogisticLoss_evaluate (1/4) 0 = Inr (- ln (3/4))
   \<and> LogisticLoss_evaluate (1/2) 0 = Inr (- ln (1/2))
   \<and> - ln (3/4) < - ln (1/2::real)"
proof -
  have h: "(0::real) < 1/4" "(1/4::real) < 1/2" "(1/2::real) < 1" by simp_all
  obtain v1 v2 w1 w2 where
    "LogisticLoss_evaluate (1/4) 1 = Inr v1" "LogisticLoss_evaluate (1/2) 1 = Inr v2"
    "v2 < v1 \<longleftrightarrow> (0.0001::real) < 1/2"
    "LogisticLoss_evaluate (1/4) 0 = Inr w1" "LogisticLoss_evaluate (1/2) 0 = Inr w2"
    "w1 < w2 \<longleftrightarrow> (1/4::real) < 0.9999"
    using LogisticLoss_evaluate_monotone [OF h] by blast
  then show ?thesis
    by (simp add: LogisticLoss_evaluate_def CHECK_def std_max_def)
qed

text \<open>
  The statement of C9 for the whole interval \<open>(0, 1)\<close> does not hold: below the floor,
  \<open>evaluate(1e-5, 1)\<close> and \<open>evaluate(5e-5, 1)\<close> are both \<open>- ln 1e-4\<close>, and so are
  \<open>evaluate(0.99995, 0)\<close> and \<open>evaluate(0.99999, 0)\<close>.
\<close>

theorem LogisticLoss_evaluate_flat_at_floor:
  "(0::real) < 0.00001 \<and> (0.00001::real) < 0.00005 \<and> (0.00005::real) < 1
   \<and> LogisticLoss_evaluate 0.00001 1 = Inr (- ln 0.0001)
   \<and> LogisticLoss_evaluate 0.00005 1 = Inr (- ln 0.0001)
   \<and> \<not> projr (LogisticLoss_evaluate 0.00001 1) > projr (LogisticLoss_evaluate 0.00005 1)
   \<and> (0::real) < 0.99995 \<and> (0.99995::real) < 0.99999 \<and> (0.99999::real) < 1
   \<and> LogisticLoss_evaluate 0.99995 0 = Inr (- ln 0.0001)
   \<and> LogisticLoss_evaluate 0.99999 0 = Inr (- ln 0.0001)
   \<and> \<not> projr (LogisticLoss_evaluate 0.99995 0) < projr (LogisticLoss_evaluate 0.99999 0)"
  by (simp add: LogisticLoss_evaluate_def CHECK_def std_max_def)

section \<open>Cross-entropy loss\<close>

text \<open>
  C1: for the CrossEntropy variant, \<open>evaluate(pred, truth)\<close> is
  \<open>(1 - truth) * pred + exp (- pred)\<close> when \<open>pred > 18\<close>, \<open>(1 - truth) * pred - pred\<close> when
  \<open>pred < -18\<close>, and \<open>(1 - truth) * pred + log1p (exp (- pred))\<close> otherwise;
  \<open>gradient(pred, truth)\<close> is \<open>1 - truth\<close> when \<open>pred > 18\<close>, \<open>exp pred - truth\<close> when
  \<open>pred < -18\<close>, and \<open>1 / (1 + exp (- pred)) - truth\<close> otherwise; \<open>predict(x)\<close> is
  \<open>1 / (1 + exp (- x))\<close>. Each case has variables of its own.
\<close>

theorem CrossEntropyLoss_formulas:
  "(p1 > 18 \<longrightarrow> CrossEntropyLoss_evaluate p1 t1 = (1 - t1) * p1 + exp (- p1))
   \<and> (p2 < - 18 \<longrightarrow> CrossEntropyLoss_evaluate p2 t2 = (1 - t2) * p2 - p2)
   \<and> (\<not> p3 > 18 \<and> \<not> p3 < - 18 \<longrightarrow>
        CrossEntropyLoss_evaluate p3 t3 = (1 - t3) * p3 + log1p (exp (- p3)))
   \<and> (p4 > 18 \<longrightarrow> CrossEntropyLoss_gradient p4 t4 = 1 - t4)
   \<and> (p5 < - 18 \<longrightarrow> CrossEntropyLoss_gradient p5 t5 = exp p5 - t5)
   \<and> (\<not> p6 > 18 \<and> \<not> p6 < - 18 \<longrightarrow>
        CrossEntropyLoss_gradient p6 t6 = 1 / (1 + exp (- p6)) - t6)
   \<and> CrossEntropyLoss_predict x = 1 / (1 + exp (- x))"
  by (simp add: CrossEntropyLoss_evaluate_def CrossEntropyLoss_gradient_def
      CrossEntropyLoss_predict_def Let_def)

theorem CrossEntropyLoss_formulas_witness:
  "(19::real) > 18 \<and> CrossEntropyLoss_evaluate 19 0 = 19 + exp (- 19)
   \<and> (- 19::real) < - 18 \<and> CrossEntropyLoss_evaluate (- 19) 1 = 19
   \<and> \<not> (0::real) > 18 \<and> \<not> (0::real) < - 18 \<and> CrossEntropyLoss_evaluate 0 1 = log1p 1
   \<and> CrossEntropyLoss_gradient 19 1 = 0
   \<and> CrossEntropyLoss_gradient (- 19) 0 = exp (- 19)
   \<and> CrossEntropyLoss_gradient 0 0 = 1 / 2
   \<and> CrossEntropyLoss_predict 0 = 1 / 2"
  using CrossEntropyLoss_formulas [where ?p1.0 = 19 and ?t1.0 = 0 and ?p2.0 = "- 19" and ?t2.0 = 1
      and ?p3.0 = 0 and ?t3.0 = 1 and ?p4.0 = 19 and ?t4.0 = 1 and ?p5.0 = "- 19" and ?t5.0 = 0
      and ?p6.0 = 0 and ?t6.0 = 0 and x = 0]
  by simp

section \<open>Log loss\<close>

text \<open>
  C2: for the Log variant, with \<open>z = pred * truth\<close>, \<open>evaluate(pred, truth)\<close> is \<open>exp (- z)\<close>
  when \<open>z > 18\<close>, \<open>- z\<close> when \<open>z < -18\<close>, and \<open>log1p (exp (- z))\<close> otherwise;
  \<open>gradient(pred, truth)\<close> is \<open>- truth * exp (- z)\<close> when \<open>z > 18\<close>, \<open>- truth\<close> when
  \<open>z < -18\<close>, and \<open>- truth / (1 + exp z)\<close> otherwise; \<open>predict\<close> is the identity.
\<close>

theorem LogLoss_formulas:
  "(p1 * t1 > 18 \<longrightarrow> LogLoss_evaluate p1 t1 = exp (- (p1 * t1)))
   \<and> (p2 * t2 < - 18 \<longrightarrow> LogLoss_evaluate p2 t2 = - (p2 * t2))
   \<and> (\<not> p3 * t3 > 18 \<and> \<not> p3 * t3 < - 18 \<longrightarrow>
        LogLoss_evaluate p3 t3 = log1p (exp (- (p3 * t3))))
   \<and> (p4 * t4 > 18 \<longrightarrow> LogLoss_gradient p4 t4 = - t4 * exp (- (p4 * t4)))
   \<and> (p5 * t5 < - 18 \<longrightarrow> LogLoss_gradient p5 t5 = - t5)
   \<and> (\<not> p6 * t6 > 18 \<and> \<not> p6 * t6 < - 18 \<longrightarrow>
        LogLoss_gradient p6 t6 = - t6 / (1 + exp (p6 * t6)))
   \<and> LogLoss_predict x = x"
  by (simp add: LogLoss_evaluate_def LogLoss_gradient_def LogLoss_predict_def Let_def)

theorem LogLoss_formulas_witness:
  "(19::real) * 1 > 18 \<and> LogLoss_evaluate 19 1 = exp (- 19)
   \<and> (19::real) * (- 1) < - 18 \<and> LogLoss_evaluate 19 (- 1) = 19
   \<and> \<not> (0::real) * 1 > 18 \<and> \<not> (0::real) * 1 < - 18 \<and> LogLoss_evaluate 0 1 = log1p 1
   \<and> LogLoss_gradient 19 1 = - exp (- 19)
   \<and> LogLoss_gradient 19 (- 1) = 1
   \<and> LogLoss_gradient 0 1 = - 1 / 2
   \<and> LogLoss_predict 7 = 7"
  using LogLoss_formulas [where ?p1.0 = 19 and ?t1.0 = 1 and ?p2.0 = 19 and ?t2.0 = "- 1"
      and ?p3.0 = 0 and ?t3.0 = 1 and ?p4.0 = 19 and ?t4.0 = 1 and ?p5.0 = 19 and ?t5.0 = "- 1"
      and ?p6.0 = 0 and ?t6.0 = 1 and x = 7]
  by simp

section \<open>Hinge loss\<close>

text \<open>
  C7: for the Hinge variant, for \<open>truth\<close> equal to \<open>-1\<close> or \<open>1\<close> and every \<open>pred\<close>, with
  \<open>z = pred * truth\<close>: if \<open>z > 1\<close> then \<open>evaluate\<close> and \<open>gradient\<close> are \<open>0\<close>; otherwise
  \<open>evaluate\<close> is \<open>1 - z\<close> and \<open>gradient\<close> is \<open>- truth\<close>; in particular \<open>evaluate(2, 1) = 0\<close>,
  \<open>evaluate(0, 1) = 1\<close> and \<open>gradient(0, 1) = -1\<close>.
\<close>

theorem HingeLoss_formulas:
  "(t1 \<in> {- 1, 1} \<and> p1 * t1 > 1 \<longrightarrow>
      HingeLoss_evaluate p1 t1 = 0 \<and> HingeLoss_gradient p1 t1 = 0)
   \<and> (t2 \<in> {- 1, 1} \<and> \<not> p2 * t2 > 1 \<longrightarrow>
      HingeLoss_evaluate p2 t2 = 1 - p2 * t2 \<and> HingeLoss_gradient p2 t2 = - t2)
   \<and> HingeLoss_evaluate 2 1 = 0
   \<and> HingeLoss_evaluate 0 1 = 1
   \<and> HingeLoss_gradient 0 1 = - 1"
  by (simp add: HingeLoss_evaluate_def HingeLoss_gradient_def Let_def)

theorem HingeLoss_formulas_witness:
  "(- 1::real) \<in> {- 1, 1} \<and> (- 3::real) * (- 1) > 1
   \<and> HingeLoss_evaluate (- 3) (- 1) = 0 \<and> HingeLoss_gradient (- 3) (- 1) = 0
   \<and> (1::real) \<in> {- 1, 1} \<and> \<not> (1/2::real) * 1 > 1
   \<and> HingeLoss_evaluate (1/2) 1 = 1/2 \<and> HingeLoss_gradient (1/2) 1 = - 1"
  using HingeLoss_formulas [where ?t1.0 = "- 1" and ?p1.0 = "- 3" and ?t2.0 = 1 and ?p2.0 = "1/2"]
  by simp

section \<open>Squared hinge loss\<close>



section \<open>The factory\<close>

text \<open>
  C5: \<open>create\<close> returns, for each of the six enumerators, an object of the class of that
  name, whose \<open>loss_type()\<close> is the name of the variant; for every other value of the tag
  it returns a \<open>SquareLoss\<close>, whose \<open>loss_type()\<close> is \<open>Square\<close>. \<open>create\<close> has no failing
  path.
\<close>

theorem create_variants:
  "create SQUARE = SquareLoss \<and> create LOGISTIC = LogisticLoss \<and> create LOG = LogLoss
   \<and> create HINGE = HingeLoss \<and> create SQUARED_HINGE = SquaredHingeLoss
   \<and> create CROSS_ENTROPY = CrossEntropyLoss
   \<and> loss_type (create SQUARE) = ''Square'' \<and> loss_type (create LOGISTIC) = ''Logistic''
   \<and> loss_type (create LOG) = ''Log'' \<and> loss_type (create HINGE) = ''Hinge''
   \<and> loss_type (create SQUARED_HINGE) = ''SquaredHinge''
   \<and> loss_type (create CROSS_ENTROPY) = ''CrossEntropy''
   \<and> (lt \<notin> {SQUARE, LOGISTIC, LOG, HINGE, SQUARED_HINGE, CROSS_ENTROPY} \<longrightarrow>
        create lt = SquareLoss \<and> loss_type (create lt) = ''Square'')"
  by (simp add: create_def SQUARE_def LOGISTIC_def LOG_def HINGE_def SQUARED_HINGE_def
      CROSS_ENTROPY_def SquareLoss_loss_type_def LogisticLoss_loss_type_def LogLoss_loss_type_def
      HingeLoss_loss_type_def SquaredHingeLoss_loss_type_def CrossEntropyLoss_loss_type_def)

theorem create_variants_witness:
  "(6::int) \<notin> {SQUARE, LOGISTIC, LOG, HINGE, SQUARED_HINGE, CROSS_ENTROPY}
   \<and> create 6 = SquareLoss \<and> loss_type (create 6) = ''Square''"
  using create_variants [where lt = 6]
  by (simp add: SQUARE_def LOGISTIC_def LOG_def HINGE_def SQUARED_HINGE_def CROSS_ENTROPY_def
      SquareLoss_loss_type_def)

end
